theory Spec2Isabelle
  imports Complex_Main "HOL-Library.AList"
begin

text \<open>
  The program is \<open>fight2.py\<close>, a Streamlit page on which two developers enter
  Python code: each code that is not blank is written to a temporary file and rated by
  pylint, the scores are compared, and a ranking of names and scores is kept in the
  file \<open>ranking.json\<close>. The first sections embed the program, with the parts of
  Python it relies on; the later ones state and prove its properties.
\<close>

section \<open>Python strings\<close>

text \<open>
  A Python \<open>str\<close> is modelled as a \<open>string\<close> whose characters are the code points
  below 256; text with higher code points is outside the model.
\<close>

definition py_startswith :: "string \<Rightarrow> string \<Rightarrow> bool" where
  \<comment> \<open>\<open>s.startswith(p)\<close>\<close>
  "py_startswith s p = (take (length p) s = p)"

fun py_split :: "char \<Rightarrow> string \<Rightarrow> string list" where
  \<comment> \<open>\<open>s.split(sep)\<close> for a separator of one character: every occurrence cuts, empty
      pieces are kept, and the result always has a first piece.\<close>
  "py_split sep [] = [[]]"
| "py_split sep (c # cs) =
     (if c = sep then [] # py_split sep cs
      else (case py_split sep cs of
              [] \<Rightarrow> [[c]]
            | t # ts \<Rightarrow> (c # t) # ts))"

definition py_isspace :: "char \<Rightarrow> bool" where
  \<comment> \<open>the code points below 256 for which \<open>str.isspace\<close> holds\<close>
  "py_isspace c = (c \<in> set [CHR 0x09, CHR 0x0A, CHR 0x0B, CHR 0x0C, CHR 0x0D,
                              CHR 0x1C, CHR 0x1D, CHR 0x1E, CHR 0x1F, CHR 0x20,
                              CHR 0x85, CHR 0xA0])"

definition py_strip :: "string \<Rightarrow> string" where
  \<comment> \<open>\<open>s.strip()\<close>\<close>
  "py_strip s = rev (dropWhile py_isspace (rev (dropWhile py_isspace s)))"

definition py_lower :: "char \<Rightarrow> char" where
  "py_lower c = (case map_of (zip ''ABCDEFGHIJKLMNOPQRSTUVWXYZ''
                                    ''abcdefghijklmnopqrstuvwxyz'') c of
                   None \<Rightarrow> c | Some l \<Rightarrow> l)"


section \<open>Exceptions and floats\<close>

datatype exn =
    OSError               \<comment> \<open>the linter cannot be started, or there is no file to remove\<close>
  | UnicodeDecodeError    \<comment> \<open>the linter's output is not text\<close>
  | UnicodeEncodeError    \<comment> \<open>a text has a character that the file's encoding lacks\<close>
  | IndexError
  | ValueError
  | JSONDecodeError

text \<open>
  A Python float. A finite float is kept as the exact value of the decimal text it was
  read from. Python rounds that value to the nearest double, which keeps the order
  (not strictly: two close values can round to one double) and keeps \<open>0.0\<close> and
  \<open>10.0\<close> as they are; a value beyond the largest double becomes infinity there
  and stays finite here; and the two zeros of Python are one here.
\<close>

datatype pyfloat = Finite rat | PosInf | NegInf | NaN

fun py_gt :: "pyfloat \<Rightarrow> pyfloat \<Rightarrow> bool" where
  \<comment> \<open>\<open>x > y\<close> on floats; every comparison with nan is false\<close>
  "py_gt NaN y = False"
| "py_gt x NaN = False"
| "py_gt (Finite a) (Finite b) = (b < a)"
| "py_gt (Finite a) PosInf = False"
| "py_gt (Finite a) NegInf = True"
| "py_gt PosInf PosInf = False"
| "py_gt PosInf y = True"
| "py_gt NegInf y = False"

definition is_digit :: "char \<Rightarrow> bool" where
  "is_digit c = (c \<in> set ''0123456789'')"

definition digit_val :: "char \<Rightarrow> nat" where
  "digit_val c = (case map_of (zip ''0123456789'' [0, 1, 2, 3, 4, 5, 6, 7, 8, 9]) c of
                    None \<Rightarrow> 0 | Some d \<Rightarrow> d)"

definition digits_val :: "string \<Rightarrow> nat" where
  "digits_val ds = foldl (\<lambda>n c. 10 * n + digit_val c) 0 ds"

definition digitpart :: "string \<Rightarrow> string option" where
  \<comment> \<open>\<open>digit (["_"] digit)*\<close>: the digits, without the underscores\<close>
  "digitpart s =
     (let groups = py_split (CHR ''_'') s
      in if list_all (\<lambda>g. g \<noteq> [] \<and> list_all is_digit g) groups
         then Some (concat groups) else None)"

definition opt_digitpart :: "string \<Rightarrow> string option" where
  "opt_digitpart s = (if s = [] then Some [] else digitpart s)"

definition split_sign :: "string \<Rightarrow> bool \<times> string" where
  \<comment> \<open>an optional sign: whether it is a minus, and the text after it\<close>
  "split_sign s =
     (case s of
        [] \<Rightarrow> (False, [])
      | c # cs \<Rightarrow> if c = CHR ''-'' then (True, cs)
                  else if c = CHR ''+'' then (False, cs)
                  else (False, s))"

definition float_exponent :: "string \<Rightarrow> int option" where
  \<comment> \<open>the text after \<open>e\<close> or \<open>E\<close>: \<open>[sign] digitpart\<close>\<close>
  "float_exponent s =
     (case split_sign s of
        (neg, ds) \<Rightarrow>
          (case digitpart ds of
             None \<Rightarrow> None
           | Some d \<Rightarrow> Some (if neg then - int (digits_val d) else int (digits_val d))))"

definition float_mantissa :: "string \<Rightarrow> (string \<times> string) option" where
  \<comment> \<open>\<open>[digitpart] "." digitpart | digitpart ["."]\<close>: the digits before and after
      the point\<close>
  "float_mantissa s =
     (let ip = takeWhile (\<lambda>c. c \<noteq> CHR ''.'') s;
          r = dropWhile (\<lambda>c. c \<noteq> CHR ''.'') s
      in if r = [] then
           (case digitpart ip of None \<Rightarrow> None | Some i \<Rightarrow> Some (i, []))
         else
           (case (opt_digitpart ip, opt_digitpart (tl r)) of
              (Some i, Some f) \<Rightarrow> if i = [] \<and> f = [] then None else Some (i, f)
            | _ \<Rightarrow> None))"

definition scale10 :: "rat \<Rightarrow> int \<Rightarrow> rat" where
  "scale10 x e = (if 0 \<le> e then x * 10 ^ nat e else x / 10 ^ nat (- e))"

definition float_number :: "string \<Rightarrow> rat option" where
  \<comment> \<open>\<open>number [exponent]\<close>, without sign\<close>
  "float_number s =
     (let notE = (\<lambda>c. c \<noteq> CHR ''e'' \<and> c \<noteq> CHR ''E'');
          m = takeWhile notE s;
          r = dropWhile notE s
      in case float_mantissa m of
           None \<Rightarrow> None
         | Some (i, f) \<Rightarrow>
             (case (if r = [] then Some 0 else float_exponent (tl r)) of
                None \<Rightarrow> None
              | Some e \<Rightarrow>
                  Some (scale10 (of_nat (digits_val (i @ f))) (e - int (length f)))))"

definition float_isspace :: "char \<Rightarrow> bool" where
  \<comment> \<open>what \<open>float\<close> drops around a number: the six ASCII whitespace characters, and
      the spaces above ASCII, which it first turns into blanks. The separators U+001C to
      U+001F, which \<open>str.strip\<close> drops, are not among them.\<close>
  "float_isspace c = (c \<in> set [CHR 0x09, CHR 0x0A, CHR 0x0B, CHR 0x0C, CHR 0x0D, CHR 0x20,
                                 CHR 0x85, CHR 0xA0])"

definition float_strip :: "string \<Rightarrow> string" where
  "float_strip s = rev (dropWhile float_isspace (rev (dropWhile float_isspace s)))"

definition py_float :: "string \<Rightarrow> exn + pyfloat" where
  \<comment> \<open>the builtin \<open>float(s)\<close> on a string: surrounding whitespace is dropped, then
      \<open>[sign] (floatnumber | "inf" | "infinity" | "nan")\<close>, the words in any case;
      anything else raises ValueError\<close>
  "py_float s =
     (case split_sign (float_strip s) of
        (neg, body) \<Rightarrow>
          (let word = map py_lower body
           in if word = ''inf'' \<or> word = ''infinity''
              then Inr (if neg then NegInf else PosInf)
              else if word = ''nan'' then Inr NaN
              else (case float_number body of
                      None \<Rightarrow> Inl ValueError
                    | Some x \<Rightarrow> Inr (Finite (if neg then - x else x)))))"


section \<open>The ranking table as JSON text\<close>

text \<open>
  The ranking table is a Python dict from names to scores. A dict keeps its keys in the
  order of their first insertion, so it is an association list with distinct keys.
\<close>

type_synonym rankings = "(string \<times> pyfloat) list"

subsection \<open>\<open>json.dump(rankings, f, ensure_ascii=False, indent=4)\<close>\<close>

definition hex_digit :: "nat \<Rightarrow> char" where
  "hex_digit n = ''0123456789abcdef'' ! n"

definition escape_char :: "char \<Rightarrow> string" where
  \<comment> \<open>the replacement of one character inside a JSON string: backslash, double quote
      and the control characters are escaped, everything else is written as it is\<close>
  "escape_char c =
     (if c = CHR 0x5C then [CHR 0x5C, CHR 0x5C]
      else if c = CHR 0x22 then [CHR 0x5C, CHR 0x22]
      else if c = CHR 0x08 then [CHR 0x5C, CHR ''b'']
      else if c = CHR 0x0C then [CHR 0x5C, CHR ''f'']
      else if c = CHR 0x0A then [CHR 0x5C, CHR ''n'']
      else if c = CHR 0x0D then [CHR 0x5C, CHR ''r'']
      else if c = CHR 0x09 then [CHR 0x5C, CHR ''t'']
      else if (of_char c :: nat) < 32
        then [CHR 0x5C, CHR ''u'', CHR ''0'', CHR ''0'',
              hex_digit (of_char c div 16), hex_digit (of_char c mod 16)]
      else [c])"

definition encode_basestring :: "string \<Rightarrow> string" where
  "encode_basestring s = CHR 0x22 # concat (map escape_char s) @ [CHR 0x22]"

fun floatstr :: "(rat \<Rightarrow> string) \<Rightarrow> pyfloat \<Rightarrow> string" where
  \<comment> \<open>the text of a float value; \<open>frepr\<close> is \<open>float.__repr__\<close> on finite floats\<close>
  "floatstr frepr NaN = ''NaN''"
| "floatstr frepr PosInf = ''Infinity''"
| "floatstr frepr NegInf = ''-Infinity''"
| "floatstr frepr (Finite x) = frepr x"

fun py_join :: "string \<Rightarrow> string list \<Rightarrow> string" where
  "py_join sep [] = []"
| "py_join sep [x] = x"
| "py_join sep (x # y # ys) = x @ sep @ py_join sep (y # ys)"

definition json_item :: "(rat \<Rightarrow> string) \<Rightarrow> string \<times> pyfloat \<Rightarrow> string" where
  "json_item frepr kv =
     ''    '' @ encode_basestring (fst kv) @ '': '' @ floatstr frepr (snd kv)"

definition json_dumps :: "(rat \<Rightarrow> string) \<Rightarrow> rankings \<Rightarrow> string" where
  \<comment> \<open>an empty dict is \<open>{}\<close>; otherwise one item per line, indented by four spaces,
      the lines separated by a comma\<close>
  "json_dumps frepr d =
     (if d = [] then ''{}''
      else ''{'' @ [CHR 0x0A] @ py_join ('','' @ [CHR 0x0A]) (map (json_item frepr) d)
           @ [CHR 0x0A] @ ''}'')"

subsection \<open>\<open>json.load(f)\<close>\<close>

text \<open>
  The decoder is modelled on the documents that are one object whose values are numbers,
  which are the documents \<open>save_rankings\<close> writes. On any other text the model
  gives \<open>JSONDecodeError\<close>: that is what Python does on malformed text, while a
  well-formed document of another shape (other values, or an escape of a code point
  above 255) is outside the model.
\<close>

definition json_ws :: "char \<Rightarrow> bool" where
  "json_ws c = (c \<in> set [CHR 0x20, CHR 0x09, CHR 0x0A, CHR 0x0D])"

definition skip_ws :: "string \<Rightarrow> string" where
  "skip_ws s = dropWhile json_ws s"

definition hex_val :: "char \<Rightarrow> nat option" where
  "hex_val c = map_of (zip ''0123456789abcdefABCDEF''
                           [0, 1, 2, 3, 4, 5, 6, 7, 8, 9, 10, 11, 12, 13, 14, 15,
                            10, 11, 12, 13, 14, 15]) c"

definition decode_uXXXX :: "char \<Rightarrow> char \<Rightarrow> char \<Rightarrow> char \<Rightarrow> nat option" where
  "decode_uXXXX a b c d =
     (case (hex_val a, hex_val b, hex_val c, hex_val d) of
        (Some x, Some y, Some z, Some w) \<Rightarrow> Some (((x * 16 + y) * 16 + z) * 16 + w)
      | _ \<Rightarrow> None)"

definition backslash :: "char \<Rightarrow> char option" where
  \<comment> \<open>the character after a backslash, other than \<open>u\<close>\<close>
  "backslash c = map_of [(CHR 0x22, CHR 0x22), (CHR 0x5C, CHR 0x5C), (CHR ''/'', CHR ''/''),
                         (CHR ''b'', CHR 0x08), (CHR ''f'', CHR 0x0C), (CHR ''n'', CHR 0x0A),
                         (CHR ''r'', CHR 0x0D), (CHR ''t'', CHR 0x09)] c"

definition cons_fst :: "'a \<Rightarrow> ('a list \<times> 'b) option \<Rightarrow> ('a list \<times> 'b) option" where
  "cons_fst x r = (case r of None \<Rightarrow> None | Some (xs, rest) \<Rightarrow> Some (x # xs, rest))"

fun scanstring :: "string \<Rightarrow> (string \<times> string) option" where
  \<comment> \<open>the text after an opening quote: the string up to the closing quote, decoded, and
      the text after the closing quote; a raw control character is refused\<close>
  "scanstring [] = None"
| "scanstring (c # cs) =
     (if c = CHR 0x22 then Some ([], cs)
      else if c = CHR 0x5C then
        (case cs of
           [] \<Rightarrow> None
         | e # es \<Rightarrow>
             if e = CHR ''u'' then
               (case es of
                  h1 # h2 # h3 # h4 # rest \<Rightarrow>
                    (case decode_uXXXX h1 h2 h3 h4 of
                       None \<Rightarrow> None
                     | Some n \<Rightarrow> if n < 256 then cons_fst (char_of n) (scanstring rest)
                                 else None)
                | _ \<Rightarrow> None)
             else
               (case backslash e of
                  None \<Rightarrow> None
                | Some ch \<Rightarrow> cons_fst ch (scanstring es)))
      else if (of_char c :: nat) < 32 then None
      else cons_fst c (scanstring cs))"

fun match_unsigned :: "string \<Rightarrow> (string \<times> string) option" where
  \<comment> \<open>\<open>0|[1-9][0-9]*\<close> at the start of the text: the match and the rest\<close>
  "match_unsigned [] = None"
| "match_unsigned (d # ds) =
     (if d = CHR ''0'' then Some (''0'', ds)
      else if is_digit d then Some (d # takeWhile is_digit ds, dropWhile is_digit ds)
      else None)"

definition match_integer :: "string \<Rightarrow> (string \<times> string) option" where
  \<comment> \<open>\<open>-?(0|[1-9][0-9]*)\<close>\<close>
  "match_integer s =
     (case s of
        [] \<Rightarrow> None
      | c # cs \<Rightarrow> if c = CHR ''-'' then cons_fst c (match_unsigned cs)
                  else match_unsigned s)"

definition match_frac :: "string \<Rightarrow> string \<times> string" where
  \<comment> \<open>\<open>(\.[0-9]+)?\<close>\<close>
  "match_frac s =
     (case s of
        c # d # ds \<Rightarrow>
          if c = CHR ''.'' \<and> is_digit d
          then (c # d # takeWhile is_digit ds, dropWhile is_digit ds)
          else ([], s)
      | _ \<Rightarrow> ([], s))"

definition match_exp_digits :: "string \<Rightarrow> (string \<times> string) option" where
  \<comment> \<open>\<open>[-+]?[0-9]+\<close>\<close>
  "match_exp_digits s =
     (case s of
        [] \<Rightarrow> None
      | c # cs \<Rightarrow>
          if c = CHR ''-'' \<or> c = CHR ''+'' then
            (case cs of
               [] \<Rightarrow> None
             | d # ds \<Rightarrow> if is_digit d
                          then Some (c # d # takeWhile is_digit ds, dropWhile is_digit ds)
                          else None)
          else if is_digit c then Some (c # takeWhile is_digit cs, dropWhile is_digit cs)
          else None)"

definition match_exp :: "string \<Rightarrow> string \<times> string" where
  \<comment> \<open>\<open>([eE][-+]?[0-9]+)?\<close>\<close>
  "match_exp s =
     (case s of
        [] \<Rightarrow> ([], s)
      | c # cs \<Rightarrow>
          if c = CHR ''e'' \<or> c = CHR ''E'' then
            (case match_exp_digits cs of
               None \<Rightarrow> ([], s)
             | Some (m, r) \<Rightarrow> (c # m, r))
          else ([], s))"

definition py_int :: "string \<Rightarrow> int" where
  \<comment> \<open>\<open>int(s)\<close> on a match of \<open>match_integer\<close>\<close>
  "py_int s = (case split_sign s of
                 (neg, ds) \<Rightarrow> if neg then - int (digits_val ds) else int (digits_val ds))"

definition scan_number :: "string \<Rightarrow> (pyfloat \<times> string) option" where
  \<comment> \<open>a number at the start of the text. With a fraction or an exponent it is read by
      \<open>float\<close>; without, it is a Python int, kept here as the float of the same
      value.\<close>
  "scan_number s =
     (case match_integer s of
        Some (i, r1) \<Rightarrow>
          (case match_frac r1 of
             (f, r2) \<Rightarrow>
               (case match_exp r2 of
                  (e, r3) \<Rightarrow>
                    if f \<noteq> [] \<or> e \<noteq> [] then
                      (case py_float (i @ f @ e) of
                         Inr v \<Rightarrow> Some (v, r3)
                       | Inl _ \<Rightarrow> None)
                    else Some (Finite (of_int (py_int i)), r3)))
      | None \<Rightarrow>
          if py_startswith s ''NaN'' then Some (NaN, drop 3 s)
          else if py_startswith s ''Infinity'' then Some (PosInf, drop 8 s)
          else if py_startswith s ''-Infinity'' then Some (NegInf, drop 9 s)
          else None)"


lemma cons_fst_Some:
  "cons_fst x r = Some (ys, rest) \<Longrightarrow> \<exists>xs. r = Some (xs, rest) \<and> ys = x # xs"
  by (auto simp: cons_fst_def split: option.splits)

lemma scanstring_shorter: "scanstring s = Some (k, r) \<Longrightarrow> length r < length s"
proof (induction s arbitrary: k r rule: scanstring.induct)
  case 1
  then show ?case by simp
next
  case (2 c cs)
  then show ?case
    by (fastforce split: if_splits list.splits option.splits dest!: cons_fst_Some)
qed

lemma skip_ws_length: "length (skip_ws s) \<le> length s"
  by (simp add: skip_ws_def length_dropWhile_le)

lemma match_unsigned_split: "match_unsigned s = Some (m, r) \<Longrightarrow> s = m @ r"
  by (cases s) (auto split: if_splits)

lemma match_integer_split: "match_integer s = Some (m, r) \<Longrightarrow> s = m @ r"
  by (auto simp: match_integer_def split: list.splits if_splits
           dest!: cons_fst_Some match_unsigned_split)

lemma match_frac_split: "match_frac s = (m, r) \<Longrightarrow> s = m @ r"
  by (auto simp: match_frac_def split: list.splits if_splits)

lemma match_exp_digits_split: "match_exp_digits s = Some (m, r) \<Longrightarrow> s = m @ r"
  by (auto simp: match_exp_digits_def split: list.splits if_splits)

lemma match_exp_split: "match_exp s = (m, r) \<Longrightarrow> s = m @ r"
  by (auto simp: match_exp_def split: list.splits if_splits option.splits
           dest!: match_exp_digits_split)

lemma scan_number_length: "scan_number s = Some (v, r) \<Longrightarrow> length r \<le> length s"
  by (auto simp: scan_number_def py_startswith_def
           split: option.splits prod.splits if_splits sum.splits
           dest!: match_integer_split match_frac_split match_exp_split)

function scan_members :: "string \<Rightarrow> ((string \<times> pyfloat) list \<times> string) option" where
  \<comment> \<open>the members of an object, from just after the opening quote of a key to the
      closing brace: \<open>key" : number\<close>, then a comma and the next key, or the brace\<close>
  "scan_members s =
     (case scanstring s of
        None \<Rightarrow> None
      | Some (key, r0) \<Rightarrow>
          (case skip_ws r0 of
             [] \<Rightarrow> None
           | c # r1 \<Rightarrow>
               if c \<noteq> CHR '':'' then None
               else
                 (case scan_number (skip_ws r1) of
                    None \<Rightarrow> None
                  | Some (v, r2) \<Rightarrow>
                      (case skip_ws r2 of
                         [] \<Rightarrow> None
                       | d # r3 \<Rightarrow>
                           if d = CHR ''}'' then Some ([(key, v)], r3)
                           else if d = CHR '','' then
                             (case skip_ws r3 of
                                [] \<Rightarrow> None
                              | q # r4 \<Rightarrow>
                                  if q = CHR 0x22 then cons_fst (key, v) (scan_members r4)
                                  else None)
                           else None))))"
  by pat_completeness auto
termination
proof (relation "measure length", goal_cases)
  case 1
  then show ?case by simp
next
  case (2 s x2 key r0 c r1 x2a v r2 d r3 q r4)
  have "length r4 < length (skip_ws r3)" using 2 by simp
  also have "\<dots> \<le> length r3" by (rule skip_ws_length)
  also have "\<dots> < length (skip_ws r2)" using 2 by simp
  also have "\<dots> \<le> length r2" by (rule skip_ws_length)
  also have "\<dots> \<le> length (skip_ws r1)" using 2 by (auto dest!: scan_number_length)
  also have "\<dots> \<le> length r1" by (rule skip_ws_length)
  also have "\<dots> < length (skip_ws r0)" using 2 by simp
  also have "\<dots> \<le> length r0" by (rule skip_ws_length)
  also have "\<dots> < length s" using 2 by (auto dest!: scanstring_shorter)
  finally show ?case by simp
qed

declare scan_members.simps [simp del]

definition json_object :: "string \<Rightarrow> ((string \<times> pyfloat) list \<times> string) option" where
  \<comment> \<open>the text after an opening brace: the pairs of the object and the text after it\<close>
  "json_object s =
     (case skip_ws s of
        [] \<Rightarrow> None
      | c # r \<Rightarrow> if c = CHR ''}'' then Some ([], r)
                 else if c = CHR 0x22 then scan_members r
                 else None)"

definition dict_of_pairs :: "(string \<times> pyfloat) list \<Rightarrow> rankings" where
  \<comment> \<open>\<open>dict(pairs)\<close>: a key met again keeps its place and takes the later value\<close>
  "dict_of_pairs ps = foldl (\<lambda>d kv. AList.update (fst kv) (snd kv) d) [] ps"

definition json_loads :: "string \<Rightarrow> exn + rankings" where
  "json_loads s =
     (case skip_ws s of
        [] \<Rightarrow> Inl JSONDecodeError
      | c # r \<Rightarrow>
          if c = CHR ''{'' then
            (case json_object r of
               None \<Rightarrow> Inl JSONDecodeError
             | Some (ps, rest) \<Rightarrow>
                 if skip_ws rest = [] then Inr (dict_of_pairs ps) else Inl JSONDecodeError)
          else Inl JSONDecodeError)"


section \<open>The world outside the program\<close>

text \<open>
  What the Streamlit page shows, one event for each call that renders something. The
  texts are fixed in the source; an event keeps only what varies.
\<close>

datatype st_event =
    Title                               \<comment> \<open>\<open>st.title\<close>\<close>
  | Intro                               \<comment> \<open>\<open>st.markdown\<close> with the introduction\<close>
  | Code_header string                  \<comment> \<open>\<open>st.header\<close>: the code of this developer\<close>
  | No_code_warning                     \<comment> \<open>\<open>st.warning\<close>: enter at least one code\<close>
  | Rule                                \<comment> \<open>\<open>st.markdown("---")\<close>\<close>
  | Result_header                       \<comment> \<open>\<open>st.header\<close>: battle result\<close>
  | Score_subheader string pyfloat      \<comment> \<open>\<open>st.subheader\<close>: the score of this developer\<close>
  | No_code_subheader string            \<comment> \<open>\<open>st.subheader\<close>: this developer entered no code\<close>
  | Winner_success string               \<comment> \<open>\<open>st.success\<close>: this developer won\<close>
  | Tie_info                            \<comment> \<open>\<open>st.info\<close>: a tie\<close>
  | Auto_winner_success string          \<comment> \<open>\<open>st.success\<close>: only this developer submitted
                                            and wins automatically\<close>
  | Review_heading                      \<comment> \<open>\<open>st.markdown\<close>: the heading of the reviews\<close>
  | Review string string                \<comment> \<open>\<open>st.markdown\<close>: the review of a developer's code\<close>
  | No_rankings_info                    \<comment> \<open>\<open>st.info\<close>: there is no ranking data\<close>
  | Ranking_header                      \<comment> \<open>\<open>st.header\<close>: current ranking\<close>
  | Ranking_line nat string pyfloat     \<comment> \<open>\<open>st.write\<close>: rank, developer, score\<close>
  | Pylint_error exn                    \<comment> \<open>\<open>st.error\<close>: an error while running pylint\<close>

text \<open>Everything the program does to its surroundings, in the order it does it.\<close>

datatype event =
    St st_event
  | Temp_created nat string     \<comment> \<open>a temporary file was created with these contents\<close>
  | Pylint_run nat              \<comment> \<open>the linter was run on this temporary file\<close>
  | Temp_removed nat            \<comment> \<open>\<open>os.remove\<close> of this temporary file\<close>
  | Ranking_file_written        \<comment> \<open>the ranking file was opened for writing and written\<close>

record world =
  ranking_file :: "string option"       \<comment> \<open>the text of \<open>ranking.json\<close>, if the file exists\<close>
  temp_files :: "(nat \<times> string) list"   \<comment> \<open>the temporary files, by name, with their text\<close>
  trace :: "event list"

text \<open>
  What the program calls and does not define: the linter, which given the name of a file
  and its contents (if it exists) either cannot be run or prints a text on its standard
  output, and the text \<open>float.__repr__\<close> gives for a finite float.
\<close>

record externals =
  pylint :: "nat \<Rightarrow> string option \<Rightarrow> exn + string"
  float_repr :: "rat \<Rightarrow> string"

definition emit :: "event \<Rightarrow> world \<Rightarrow> world" where
  "emit e w = w\<lparr>trace := trace w @ [e]\<rparr>"

definition st :: "st_event list \<Rightarrow> world \<Rightarrow> world" where
  "st es w = w\<lparr>trace := trace w @ map St es\<rparr>"

definition fresh_temp :: "world \<Rightarrow> nat" where
  \<comment> \<open>a name that no temporary file has\<close>
  "fresh_temp w = Suc (fold max (map fst (temp_files w)) 0)"

definition named_temporary_file :: "string \<Rightarrow> world \<Rightarrow> nat \<times> world" where
  \<comment> \<open>lines 29 to 31 when the code can be written: a new file under a fresh name,
      holding the code. \<open>named_temporary_file_on\<close> below has the other case too.\<close>
  "named_temporary_file code w =
     (let p = fresh_temp w
      in (p, emit (Temp_created p code) (w\<lparr>temp_files := (p, code) # temp_files w\<rparr>)))"

definition subprocess_run :: "externals \<Rightarrow> nat \<Rightarrow> world \<Rightarrow> (exn + string) \<times> world" where
  \<comment> \<open>lines 35 to 40: the linter on the file; the exit status is not looked at\<close>
  "subprocess_run ext p w = (pylint ext p (map_of (temp_files w) p), emit (Pylint_run p) w)"

definition os_remove :: "nat \<Rightarrow> world \<Rightarrow> exn + world" where
  \<comment> \<open>\<open>os.remove(path)\<close> raises when there is no such file\<close>
  "os_remove p w =
     (if p \<in> fst ` set (temp_files w)
      then Inr (emit (Temp_removed p)
                  (w\<lparr>temp_files := filter (\<lambda>f. fst f \<noteq> p) (temp_files w)\<rparr>))
      else Inl OSError)"


section \<open>The program\<close>

subsection \<open>The ranking store\<close>

definition load_rankings :: "world \<Rightarrow> exn + rankings" where
  \<comment> \<open>lines 11 to 16: an empty mapping when there is no file\<close>
  "load_rankings w =
     (case ranking_file w of
        Some text \<Rightarrow> json_loads text
      | None \<Rightarrow> Inr [])"

definition save_rankings :: "externals \<Rightarrow> rankings \<Rightarrow> world \<Rightarrow> world" where
  \<comment> \<open>lines 19 to 22: the file is overwritten with the text of the whole mapping\<close>
  "save_rankings ext rankings w =
     emit Ranking_file_written
       (w\<lparr>ranking_file := Some (json_dumps (float_repr ext) rankings)\<rparr>)"

definition update_rankings :: "rankings \<Rightarrow> string \<Rightarrow> pyfloat \<Rightarrow> rankings" where
  \<comment> \<open>lines 56 to 59, \<open>rankings[developer] = score\<close>: a known name keeps its place and
      takes the score, a new name goes to the end\<close>
  "update_rankings rankings developer score = AList.update developer score rankings"

subsection \<open>The score extractor\<close>

definition rating_prefix :: string where
  "rating_prefix = ''Your code has been rated at''"

definition parse_rating :: "string \<Rightarrow> exn + pyfloat" where
  \<comment> \<open>lines 45 and 46: the seventh piece between spaces, up to its first slash\<close>
  "parse_rating line =
     (let pieces = py_split (CHR '' '') line
      in if length pieces \<le> 6 then Inl IndexError
         else (case py_split (CHR ''/'') (pieces ! 6) of
                 [] \<Rightarrow> Inl IndexError
               | score_str # _ \<Rightarrow> py_float score_str))"

fun scan_lines :: "string list \<Rightarrow> exn + pyfloat" where
  \<comment> \<open>lines 43 to 48: the first line with the prefix decides; without one, 0.0\<close>
  "scan_lines [] = Inr (Finite 0)"
| "scan_lines (line # rest) =
     (if py_startswith line rating_prefix then parse_rating line else scan_lines rest)"

definition try_body :: "externals \<Rightarrow> nat \<Rightarrow> world \<Rightarrow> (exn + pyfloat) \<times> world" where
  \<comment> \<open>lines 34 to 48, the body of \<open>try\<close>: it returns a score or raises\<close>
  "try_body ext temp_path w =
     (case subprocess_run ext temp_path w of
        (result, w') \<Rightarrow>
          (case result of
             Inl e \<Rightarrow> (Inl e, w')
           | Inr stdout \<Rightarrow> (scan_lines (py_split (CHR 0x0A) stdout), w')))"

definition get_pylint_score :: "externals \<Rightarrow> string \<Rightarrow> world \<Rightarrow> exn + (pyfloat \<times> world)" where
  \<comment> \<open>lines 25 to 53 when the code can be written to the temporary file. \<open>except\<close>
      turns what the body raised into an error banner and 0.0; \<open>finally\<close> removes the
      file, and what \<open>os.remove\<close> raises leaves the function.\<close>
  "get_pylint_score ext code w =
     (case named_temporary_file code w of
        (temp_path, w1) \<Rightarrow>
          (case try_body ext temp_path w1 of
             (tried, w2) \<Rightarrow>
               (let returned = (case tried of
                                  Inr score \<Rightarrow> (score, w2)
                                | Inl e \<Rightarrow> (Finite 0, st [Pylint_error e] w2))
                in case os_remove temp_path (snd returned) of
                     Inl e \<Rightarrow> Inl e
                   | Inr w3 \<Rightarrow> Inr (fst returned, w3))))"

text \<open>
  The temporary file is opened in text mode with no encoding given (line 29), so
  \<open>temp.write(code)\<close> (line 30) encodes the code in the encoding of the host's locale
  and raises \<open>UnicodeEncodeError\<close> when that encoding lacks a character of the code;
  writing can also fail with \<open>OSError\<close>, on a full device. Lines 29 to 31 stand
  before \<open>try\<close>: what they raise leaves \<open>get_pylint_score\<close>, the \<open>finally\<close>
  of line 52 is not reached, and the file, created with \<open>delete=False\<close>, stays. A
  writer says what writing a text to the temporary file raises, if it raises; the
  extractor on any host is \<open>get_pylint_score_on\<close>, and \<open>get_pylint_score\<close> above
  is what it does when the write succeeds (lemma \<open>get_pylint_score_on_written\<close>).
\<close>

type_synonym temp_writer = "string \<Rightarrow> exn option"

definition named_temporary_file_on ::
  "temp_writer \<Rightarrow> string \<Rightarrow> world \<Rightarrow> (exn + nat) \<times> world" where
  \<comment> \<open>lines 29 to 31: the file is created under a fresh name, then the code is
      written; a failed write leaves the file, with nothing in it, and raises\<close>
  "named_temporary_file_on tw code w =
     (case tw code of
        None \<Rightarrow> (case named_temporary_file code w of (p, w') \<Rightarrow> (Inr p, w'))
      | Some e \<Rightarrow>
          (let p = fresh_temp w
           in (Inl e, emit (Temp_created p []) (w\<lparr>temp_files := (p, []) # temp_files w\<rparr>))))"

definition get_pylint_score_on ::
  "temp_writer \<Rightarrow> externals \<Rightarrow> string \<Rightarrow> world \<Rightarrow> (exn + pyfloat) \<times> world" where
  \<comment> \<open>lines 25 to 53, with the world as it is left also when the call raises\<close>
  "get_pylint_score_on tw ext code w =
     (case named_temporary_file_on tw code w of
        (Inl e, w1) \<Rightarrow> (Inl e, w1)
      | (Inr temp_path, w1) \<Rightarrow>
          (case try_body ext temp_path w1 of
             (tried, w2) \<Rightarrow>
               (let returned = (case tried of
                                  Inr score \<Rightarrow> (score, w2)
                                | Inl e \<Rightarrow> (Finite 0, st [Pylint_error e] w2))
                in case os_remove temp_path (snd returned) of
                     Inl e \<Rightarrow> (Inl e, snd returned)
                   | Inr w3 \<Rightarrow> (Inr (fst returned), w3))))"

subsection \<open>The leaderboard\<close>

fun insert_desc :: "string \<times> pyfloat \<Rightarrow> rankings \<Rightarrow> rankings" where
  "insert_desc x [] = [x]"
| "insert_desc x (y # ys) =
     (if py_gt (snd y) (snd x) then y # insert_desc x ys else x # y # ys)"

definition sorted_desc :: "rankings \<Rightarrow> rankings" where
  \<comment> \<open>\<open>sorted(rankings.items(), key=lambda x: x[1], reverse=True)\<close>: by falling score,
      entries of equal score in the order of the dict (for scores that can be compared)\<close>
  "sorted_desc rankings = foldr insert_desc rankings []"

definition display_rankings :: "rankings \<Rightarrow> world \<Rightarrow> world" where
  \<comment> \<open>lines 62 to 75\<close>
  "display_rankings rankings w =
     (if rankings = [] then st [No_rankings_info] w
      else st ([Rule, Ranking_header]
               @ map (\<lambda>(idx, dev, score). Ranking_line idx dev score)
                     (zip [1 ..< Suc (length rankings)] (sorted_desc rankings))) w)"

subsection \<open>The battle\<close>

record inputs =
  dev_a :: string      \<comment> \<open>the two name fields\<close>
  dev_b :: string
  code_a :: string     \<comment> \<open>the two code areas\<close>
  code_b :: string
  button :: bool       \<comment> \<open>whether the button was pressed\<close>

text \<open>
  How a run of \<open>main\<close> ended: without a battle, with the warning, or past the winner
  determination, with the values that \<open>score_a\<close> and \<open>score_b\<close> had there.
\<close>

datatype outcome = No_battle | Aborted | Fought "pyfloat option" "pyfloat option"

definition score_side ::
  "externals \<Rightarrow> string \<Rightarrow> string \<Rightarrow> rankings \<Rightarrow> world
     \<Rightarrow> exn + (pyfloat option \<times> rankings \<times> world)" where
  \<comment> \<open>lines 119 to 124 for A, and the same lines 126 to 131 for B\<close>
  "score_side ext dev code rankings w =
     (if py_strip code \<noteq> [] then
        (case get_pylint_score ext code w of
           Inl e \<Rightarrow> Inl e
         | Inr (score, w') \<Rightarrow>
             Inr (Some score, update_rankings rankings dev score,
                  st [Score_subheader dev score] w'))
      else Inr (None, rankings, st [No_code_subheader dev] w))"

fun winner_messages ::
  "string \<Rightarrow> string \<Rightarrow> pyfloat option \<Rightarrow> pyfloat option \<Rightarrow> st_event list" where
  \<comment> \<open>lines 134 to 144\<close>
  "winner_messages a b (Some score_a) (Some score_b) =
     (if py_gt score_a score_b then [Winner_success a]
      else if py_gt score_b score_a then [Winner_success b]
      else [Tie_info])"
| "winner_messages a b (Some score_a) None = [Auto_winner_success a]"
| "winner_messages a b None (Some score_b) = [Auto_winner_success b]"
| "winner_messages a b None None = []"

definition review_messages :: "string \<Rightarrow> string \<Rightarrow> st_event list" where
  \<comment> \<open>lines 151 to 154; the source never sets a review\<close>
  "review_messages dev review = (if review \<noteq> [] then [Review dev review] else [])"

definition main :: "externals \<Rightarrow> inputs \<Rightarrow> world \<Rightarrow> exn + (outcome \<times> rankings \<times> world)" where
  \<comment> \<open>lines 78 to 157: one run of the page. The result holds the local \<open>rankings\<close> as
      it is when \<open>main\<close> returns.\<close>
  "main ext inp w0 =
     (let w1 = st [Title, Intro] w0
      in case load_rankings w1 of
           Inl e \<Rightarrow> Inl e
         | Inr rankings \<Rightarrow>
             (let w2 = st [Code_header (dev_a inp), Code_header (dev_b inp)] w1
              in if \<not> button inp then Inr (No_battle, rankings, w2)
                 else if py_strip (code_a inp) = [] \<and> py_strip (code_b inp) = []
                   then Inr (Aborted, rankings, st [No_code_warning] w2)
                 else
                   (let w3 = st [Rule, Result_header] w2;
                        review_a = [];
                        review_b = []
                    in case score_side ext (dev_a inp) (code_a inp) rankings w3 of
                         Inl e \<Rightarrow> Inl e
                       | Inr (score_a, rankings_a, w4) \<Rightarrow>
                           (case score_side ext (dev_b inp) (code_b inp) rankings_a w4 of
                              Inl e \<Rightarrow> Inl e
                            | Inr (score_b, rankings_b, w5) \<Rightarrow>
                                (let w6 = st (winner_messages (dev_a inp) (dev_b inp)
                                                score_a score_b) w5;
                                     w7 = save_rankings ext rankings_b w6;
                                     w8 = st ([Review_heading]
                                              @ review_messages (dev_a inp) review_a
                                              @ review_messages (dev_b inp) review_b) w7
                                 in Inr (Fought score_a score_b, rankings_b,
                                         display_rankings rankings_b w8))))))"


section \<open>Vocabulary of the properties\<close>

subsection \<open>Scores\<close>



definition submitted :: "string \<Rightarrow> bool" where
  \<comment> \<open>the code text is not empty after trimming\<close>
  "submitted code = (py_strip code \<noteq> [])"

definition attempt :: "externals \<Rightarrow> string \<Rightarrow> world \<Rightarrow> exn + pyfloat" where
  \<comment> \<open>what the body of \<open>try\<close> gives when \<open>get_pylint_score\<close> is called with this code
      in this world\<close>
  "attempt ext code w =
     fst (try_body ext (fst (named_temporary_file code w))
                   (snd (named_temporary_file code w)))"

definition extracted :: "externals \<Rightarrow> string \<Rightarrow> world \<Rightarrow> pyfloat" where
  \<comment> \<open>the score that \<open>get_pylint_score\<close> returns for this code (lemma
      \<open>get_pylint_score_eq\<close>)\<close>
  "extracted ext code w = (case attempt ext code w of Inr score \<Rightarrow> score | Inl e \<Rightarrow> Finite 0)"

definition scoring_events :: "externals \<Rightarrow> string \<Rightarrow> world \<Rightarrow> event list" where
  \<comment> \<open>what one call of \<open>get_pylint_score\<close> adds to the trace\<close>
  "scoring_events ext code w =
     [Temp_created (fresh_temp w) code, Pylint_run (fresh_temp w)]
     @ (case attempt ext code w of Inr score \<Rightarrow> [] | Inl e \<Rightarrow> [St (Pylint_error e)])
     @ [Temp_removed (fresh_temp w)]"

subsection \<open>One battle\<close>

text \<open>
  For one side of a battle: the value of its score variable, the ranking mapping after
  it, and what it adds to the trace.
\<close>

definition side_score :: "externals \<Rightarrow> string \<Rightarrow> world \<Rightarrow> pyfloat option" where
  "side_score ext code w = (if submitted code then Some (extracted ext code w) else None)"

definition side_rankings ::
  "externals \<Rightarrow> string \<Rightarrow> string \<Rightarrow> rankings \<Rightarrow> world \<Rightarrow> rankings" where
  "side_rankings ext dev code r w =
     (if submitted code then update_rankings r dev (extracted ext code w) else r)"

definition side_events :: "externals \<Rightarrow> string \<Rightarrow> string \<Rightarrow> world \<Rightarrow> event list" where
  "side_events ext dev code w =
     (if submitted code
      then scoring_events ext code w @ [St (Score_subheader dev (extracted ext code w))]
      else [St (No_code_subheader dev)])"

definition display_events :: "rankings \<Rightarrow> event list" where
  \<comment> \<open>what \<open>display_rankings\<close> shows\<close>
  "display_events r =
     trace (display_rankings r \<lparr>ranking_file = None, temp_files = [], trace = []\<rparr>)"

definition battle_rankings :: "externals \<Rightarrow> inputs \<Rightarrow> rankings \<Rightarrow> world \<Rightarrow> rankings" where
  \<comment> \<open>the ranking mapping after both sides\<close>
  "battle_rankings ext inp r0 w =
     side_rankings ext (dev_b inp) (code_b inp)
       (side_rankings ext (dev_a inp) (code_a inp) r0 w) w"

definition battle_events :: "externals \<Rightarrow> inputs \<Rightarrow> rankings \<Rightarrow> world \<Rightarrow> event list" where
  \<comment> \<open>everything a run of \<open>main\<close> with a battle adds to the trace\<close>
  "battle_events ext inp rb w =
     [St Title, St Intro, St (Code_header (dev_a inp)), St (Code_header (dev_b inp)),
      St Rule, St Result_header]
     @ side_events ext (dev_a inp) (code_a inp) w
     @ side_events ext (dev_b inp) (code_b inp) w
     @ map St (winner_messages (dev_a inp) (dev_b inp)
                 (side_score ext (code_a inp) w) (side_score ext (code_b inp) w))
     @ [Ranking_file_written, St Review_heading]
     @ display_events rb"

text \<open>
  The verdict of a run: the messages that name a winner, an automatic winner or a tie,
  and the warning that no code was entered, among what the run added to the trace.
\<close>

fun is_verdict :: "event \<Rightarrow> bool" where
  "is_verdict (St (Winner_success d)) = True"
| "is_verdict (St Tie_info) = True"
| "is_verdict (St (Auto_winner_success d)) = True"
| "is_verdict (St No_code_warning) = True"
| "is_verdict e = False"

definition verdict :: "world \<Rightarrow> world \<Rightarrow> event list" where
  "verdict w w' = filter is_verdict (drop (length (trace w)) (trace w'))"

definition reported :: "externals \<Rightarrow> inputs \<Rightarrow> world \<Rightarrow> exn + event list" where
  "reported ext inp w =
     (case main ext inp w of
        Inl e \<Rightarrow> Inl e
      | Inr (out, r', w') \<Rightarrow> Inr (verdict w w'))"

definition swap :: "inputs \<Rightarrow> inputs" where
  \<comment> \<open>developer A and developer B change places\<close>
  "swap inp = inp\<lparr>dev_a := dev_b inp, dev_b := dev_a inp,
                   code_a := code_b inp, code_b := code_a inp\<rparr>"

subsection \<open>The text of a float\<close>

definition json_number :: "string \<Rightarrow> bool" where
  \<comment> \<open>the whole text is one JSON number with a fraction or an exponent\<close>
  "json_number t =
     (case match_integer t of
        None \<Rightarrow> False
      | Some (i, r1) \<Rightarrow>
          (case match_frac r1 of
             (f, r2) \<Rightarrow>
               (case match_exp r2 of
                  (e, r3) \<Rightarrow> r3 = [] \<and> (f \<noteq> [] \<or> e \<noteq> []))))"

definition reads_back :: "(rat \<Rightarrow> string) \<Rightarrow> pyfloat \<Rightarrow> bool" where
  \<comment> \<open>the text written for a finite float is a JSON number with a fraction or an
      exponent, and \<open>float\<close> reads that text as the same float\<close>
  "reads_back frepr v =
     (case v of
        Finite x \<Rightarrow> json_number (frepr x) \<and> py_float (frepr x) = Inr (Finite x)
      | _ \<Rightarrow> True)"

definition number_stop :: "string \<Rightarrow> bool" where
  \<comment> \<open>text before which a number ends\<close>
  "number_stop rest = (case rest of [] \<Rightarrow> True | c # _ \<Rightarrow> c \<notin> set ''0123456789.eE+-'')"

definition item_body :: "(rat \<Rightarrow> string) \<Rightarrow> string \<times> pyfloat \<Rightarrow> string" where
  \<comment> \<open>an item of the dumped text, after the opening quote of its key\<close>
  "item_body frepr kv =
     concat (map escape_char (fst kv)) @ [CHR 0x22] @ '': '' @ floatstr frepr (snd kv)"

fun members_text :: "(rat \<Rightarrow> string) \<Rightarrow> rankings \<Rightarrow> string" where
  \<comment> \<open>the dumped text of a dict that is not empty, after the opening quote of its first
      key\<close>
  "members_text frepr [] = []"
| "members_text frepr [kv] = item_body frepr kv @ [CHR 0x0A] @ ''}''"
| "members_text frepr (kv # kv' # kvs) =
     item_body frepr kv @ '','' @ [CHR 0x0A] @ ''    '' @ [CHR 0x22]
     @ members_text frepr (kv' # kvs)"

subsection \<open>Examples\<close>

definition example_world :: world where
  \<comment> \<open>no ranking file, no temporary files, nothing done yet\<close>
  "example_world = \<lparr>ranking_file = None, temp_files = [], trace = []\<rparr>"


definition example_repr :: "rat \<Rightarrow> string" where
  \<comment> \<open>\<open>float.__repr__\<close> on the scores of the examples\<close>
  "example_repr x = (if x = 5 then ''5.0'' else if x = 15 / 2 then ''7.5''
                     else if x = 9 then ''9.0'' else ''0.0'')"



definition report :: "string \<Rightarrow> string" where
  \<comment> \<open>a report of the linter that ends with this rating\<close>
  "report rating =
     ''************* Module tmp1'' @ [CHR 0x0A] @ [CHR 0x0A]
     @ ''Your code has been rated at '' @ rating @ [CHR 0x0A] @ [CHR 0x0A]"

definition grader :: externals where
  \<comment> \<open>a linter that rates the code \<open>x = 1\<close> at 5.00 and any other code at 7.50\<close>
  "grader = \<lparr>pylint = (\<lambda>p c. if c = Some ''x = 1'' then Inr (report ''5.00/10'')
                              else Inr (report ''7.50/10'')),
              float_repr = example_repr\<rparr>"

definition battle :: "string \<Rightarrow> string \<Rightarrow> inputs" where
  \<comment> \<open>the button pressed, with the default names and these two codes\<close>
  "battle a b = \<lparr>dev_a = ''Developer A'', dev_b = ''Developer B'',
                  code_a = a, code_b = b, button = True\<rparr>"

definition encoding_writer :: "(char \<Rightarrow> bool) \<Rightarrow> temp_writer" where
  \<comment> \<open>writing in an encoding that has these characters: a text with another character
      is not written\<close>
  "encoding_writer has text =
     (if list_all has text then None else Some UnicodeEncodeError)"

definition ascii_locale :: temp_writer where
  \<comment> \<open>a host whose locale encoding is ASCII\<close>
  "ascii_locale = encoding_writer (\<lambda>c. (of_char c :: nat) < 128)"

definition cafe :: string where
  \<comment> \<open>the code \<open>s = 'caf\<close>, e with an acute accent (U+00E9), \<open>'\<close>\<close>
  "cafe = ''s = '' @ [CHR 0x27] @ ''caf'' @ [CHR 0xE9] @ [CHR 0x27]"



section \<open>The score extractor\<close>

lemma fold_max_ge: "(a::nat) \<le> fold max xs a"
proof (induction xs arbitrary: a)
  case Nil
  then show ?case by simp
next
  case (Cons x xs)
  have "a \<le> max x a" by simp
  also have "\<dots> \<le> fold max xs (max x a)" by (rule Cons.IH)
  finally show ?case by simp
qed

lemma fold_max_mem: "(x::nat) \<in> set xs \<Longrightarrow> x \<le> fold max xs a"
proof (induction xs arbitrary: a)
  case Nil
  then show ?case by simp
next
  case (Cons y ys)
  show ?case
  proof (cases "x = y")
    case True
    have "x \<le> max y a" using True by simp
    also have "\<dots> \<le> fold max ys (max y a)" by (rule fold_max_ge)
    finally show ?thesis by simp
  next
    case False
    with Cons.prems have "x \<in> set ys" by simp
    then show ?thesis using Cons.IH by simp
  qed
qed

lemma fresh_temp_fresh: "fresh_temp w \<notin> fst ` set (temp_files w)"
proof
  assume "fresh_temp w \<in> fst ` set (temp_files w)"
  then have "fresh_temp w \<in> set (map fst (temp_files w))" by simp
  then have "fresh_temp w \<le> fold max (map fst (temp_files w)) 0"
    by (rule fold_max_mem)
  then show False by (simp add: fresh_temp_def)
qed

lemma filter_fresh: "p \<notin> fst ` set fs \<Longrightarrow> filter (\<lambda>f. fst f \<noteq> p) fs = fs"
  by (induction fs) auto

lemma attempt_eq:
  "attempt ext code w =
     (case pylint ext (fresh_temp w) (Some code) of
        Inl e \<Rightarrow> Inl e
      | Inr stdout \<Rightarrow> scan_lines (py_split (CHR 0x0A) stdout))"
  by (simp add: attempt_def try_body_def named_temporary_file_def subprocess_run_def
      emit_def Let_def split: sum.splits)

lemma get_pylint_score_eq:
  "get_pylint_score ext code w =
     Inr (extracted ext code w, w\<lparr>trace := trace w @ scoring_events ext code w\<rparr>)"
  using fresh_temp_fresh [of w]
  by (simp add: get_pylint_score_def try_body_def named_temporary_file_def
      subprocess_run_def os_remove_def emit_def st_def Let_def attempt_def extracted_def
      scoring_events_def filter_fresh split: sum.splits)


lemma get_pylint_score_on_written:
  "tw code = None \<Longrightarrow>
   get_pylint_score_on tw ext code w =
     (Inr (extracted ext code w), w\<lparr>trace := trace w @ scoring_events ext code w\<rparr>)"
  using fresh_temp_fresh [of w]
  by (simp add: get_pylint_score_on_def named_temporary_file_on_def try_body_def
      named_temporary_file_def subprocess_run_def os_remove_def emit_def st_def Let_def
      attempt_def extracted_def scoring_events_def filter_fresh split: sum.splits)

lemma get_pylint_score_on_unwritten:
  "tw code = Some e \<Longrightarrow>
   get_pylint_score_on tw ext code w =
     (Inl e, w\<lparr>temp_files := (fresh_temp w, []) # temp_files w,
               trace := trace w @ [Temp_created (fresh_temp w) []]\<rparr>)"
  by (simp add: get_pylint_score_on_def named_temporary_file_on_def emit_def Let_def)

text \<open>
  When the code can be written, the call returns, on each of the three paths of the
  body (a score was read, no line matched, something was raised and caught): the
  temporary file it created no longer exists, the removal is the last thing the call
  does, and the temporary files are again those from before the call.
\<close>

lemma temp_file_removed_when_written:
  assumes "tw code = None"
  shows "\<exists>score w'. get_pylint_score_on tw ext code w = (Inr score, w')
           \<and> fresh_temp w \<notin> fst ` set (temp_files w')
           \<and> temp_files w' = temp_files w
           \<and> last (trace w') = Temp_removed (fresh_temp w)"
  using fresh_temp_fresh [of w] assms
  by (simp add: get_pylint_score_on_written [of tw code] scoring_events_def)

text \<open>
  C7 fails on the code. The cleanup of line 53 covers the body of \<open>try\<close> only, and the
  write of line 30 stands before it. On a host whose locale encoding is ASCII, the code
  \<open>s = 'caf\<close>, e with an acute accent, \<open>'\<close> cannot be written: the call raises
  \<open>UnicodeEncodeError\<close>, the linter is not run, nothing is removed, and the temporary
  file the call created is still there when the call is over.
\<close>

theorem temp_file_left_behind:
  "get_pylint_score_on ascii_locale grader cafe example_world
     = (Inl UnicodeEncodeError,
        example_world\<lparr>temp_files := [(1, [])], trace := [Temp_created 1 []]\<rparr>)
   \<and> map_of (temp_files (snd (get_pylint_score_on ascii_locale grader cafe example_world))) 1
     = Some []"
  by code_simp








section \<open>The battle\<close>

subsection \<open>What a run of \<open>main\<close> does\<close>

lemma fresh_temp_trace [simp]: "fresh_temp (w\<lparr>trace := t\<rparr>) = fresh_temp w"
  by (simp add: fresh_temp_def)

lemma attempt_trace [simp]: "attempt ext code (w\<lparr>trace := t\<rparr>) = attempt ext code w"
  by (simp add: attempt_eq)

lemma extracted_trace [simp]: "extracted ext code (w\<lparr>trace := t\<rparr>) = extracted ext code w"
  by (simp add: extracted_def)

lemma scoring_events_trace [simp]:
  "scoring_events ext code (w\<lparr>trace := t\<rparr>) = scoring_events ext code w"
  by (simp add: scoring_events_def)

lemma score_side_eq:
  "score_side ext dev code r w =
     Inr (side_score ext code w, side_rankings ext dev code r w,
          w\<lparr>trace := trace w @ side_events ext dev code w\<rparr>)"
  by (simp add: score_side_def get_pylint_score_eq st_def submitted_def side_score_def
      side_rankings_def side_events_def)

lemma side_events_trace [simp]:
  "side_events ext dev code (w\<lparr>trace := t\<rparr>) = side_events ext dev code w"
  by (simp add: side_events_def)

lemma side_score_trace [simp]:
  "side_score ext code (w\<lparr>trace := t\<rparr>) = side_score ext code w"
  by (simp add: side_score_def)

lemma side_rankings_trace [simp]:
  "side_rankings ext dev code r (w\<lparr>trace := t\<rparr>) = side_rankings ext dev code r w"
  by (simp add: side_rankings_def)

lemma display_rankings_eq: "display_rankings r w = w\<lparr>trace := trace w @ display_events r\<rparr>"
  by (simp add: display_rankings_def display_events_def st_def)

lemma load_rankings_trace [simp]: "load_rankings (w\<lparr>trace := t\<rparr>) = load_rankings w"
  by (simp add: load_rankings_def)

lemma main_load_fails: "load_rankings w = Inl e \<Longrightarrow> main ext inp w = Inl e"
  by (simp add: main_def st_def)

lemma main_idle:
  "load_rankings w = Inr r0 \<Longrightarrow> \<not> button inp \<Longrightarrow>
   main ext inp w =
     Inr (No_battle, r0,
          w\<lparr>trace := trace w @ [St Title, St Intro, St (Code_header (dev_a inp)),
                                 St (Code_header (dev_b inp))]\<rparr>)"
  by (simp add: main_def st_def)

lemma main_aborted:
  "load_rankings w = Inr r0 \<Longrightarrow> button inp \<Longrightarrow>
   \<not> submitted (code_a inp) \<Longrightarrow> \<not> submitted (code_b inp) \<Longrightarrow>
   main ext inp w =
     Inr (Aborted, r0,
          w\<lparr>trace := trace w @ [St Title, St Intro, St (Code_header (dev_a inp)),
                                 St (Code_header (dev_b inp)), St No_code_warning]\<rparr>)"
  by (simp add: main_def st_def submitted_def)

lemma main_fought:
  assumes "load_rankings w = Inr r0" and "button inp"
    and "submitted (code_a inp) \<or> submitted (code_b inp)"
  shows
   "main ext inp w =
      Inr (Fought (side_score ext (code_a inp) w) (side_score ext (code_b inp) w),
           battle_rankings ext inp r0 w,
           w\<lparr>ranking_file := Some (json_dumps (float_repr ext) (battle_rankings ext inp r0 w)),
             trace := trace w @ battle_events ext inp (battle_rankings ext inp r0 w) w\<rparr>)"
  using assms
  by (auto simp add: main_def st_def submitted_def score_side_eq save_rankings_def emit_def
      review_messages_def display_rankings_eq Let_def battle_events_def battle_rankings_def)

lemma verdict_side_events [simp]: "filter is_verdict (side_events ext dev code w) = []"
  by (simp add: side_events_def scoring_events_def split: sum.splits)

lemma verdict_display_events [simp]: "filter is_verdict (display_events r) = []"
  by (auto simp add: display_events_def display_rankings_def st_def filter_empty_conv)

lemma verdict_winner_messages [simp]:
  "filter is_verdict (map St (winner_messages a b sa sb)) = map St (winner_messages a b sa sb)"
  by (cases "(a, b, sa, sb)" rule: winner_messages.cases) auto

lemma verdict_battle_events:
  "filter is_verdict (battle_events ext inp rb w) =
     map St (winner_messages (dev_a inp) (dev_b inp)
               (side_score ext (code_a inp) w) (side_score ext (code_b inp) w))"
  by (simp add: battle_events_def)

lemma py_gt_asym: "py_gt x y \<Longrightarrow> \<not> py_gt y x"
  by (cases "(x, y)" rule: py_gt.cases) auto

lemma py_gt_irrefl [simp]: "\<not> py_gt x x"
  by (cases x) auto

lemma winner_messages_swap: "winner_messages b a sb sa = winner_messages a b sa sb"
  by (cases "(a, b, sa, sb)" rule: winner_messages.cases) (auto dest: py_gt_asym)

lemma battle_simps:
  "button (battle x y)" "code_a (battle x y) = x" "code_b (battle x y) = y"
  "dev_a (battle x y) = ''Developer A''" "dev_b (battle x y) = ''Developer B''"
  by (simp_all add: battle_def)

subsection \<open>No submission\<close>

text \<open>
  C4. When the button is pressed and both code texts are empty after trimming (and the
  ranking file, if there is one, could be read), \<open>main\<close> shows the warning and returns:
  the run adds to the trace the page's heading and the warning and nothing else, so no
  temporary file is created, the linter is not run and the ranking file is not written;
  the world is otherwise as it was; and the ranking mapping is the one that was loaded.
\<close>

theorem both_empty_aborts:
  assumes "load_rankings w = Inr r0" and "button inp"
    and "\<not> submitted (code_a inp)" and "\<not> submitted (code_b inp)"
  shows "main ext inp w =
           Inr (Aborted, r0,
                w\<lparr>trace := trace w @ [St Title, St Intro, St (Code_header (dev_a inp)),
                                       St (Code_header (dev_b inp)), St No_code_warning]\<rparr>)"
  using assms by (rule main_aborted)

theorem both_empty_aborts_witness:
  "main grader (battle ''  '' []) example_world =
     Inr (Aborted, [],
          example_world\<lparr>trace := [St Title, St Intro, St (Code_header ''Developer A''),
                                   St (Code_header ''Developer B''), St No_code_warning]\<rparr>)"
proof -
  have l: "load_rankings example_world = Inr []" by code_simp
  have b: "button (battle ''  '' [])" by code_simp
  have a1: "\<not> submitted (code_a (battle ''  '' []))" by code_simp
  have a2: "\<not> submitted (code_b (battle ''  '' []))" by code_simp
  have t: "trace example_world = []" by code_simp
  show ?thesis
    using both_empty_aborts [OF l b a1 a2, of grader]
    by (simp add: t battle_def)
qed

subsection \<open>The winner\<close>



text \<open>
  C10. Whenever a run of \<open>main\<close> gets to the winner determination, at least one of
  \<open>score_a\<close> and \<open>score_b\<close> is a score, so that the branch chain shows a message:
  its fourth case, both undefined and nothing shown, is never taken.
\<close>

theorem winner_step_has_a_score:
  assumes "main ext inp w = Inr (Fought score_a score_b, r', w')"
  shows "((\<exists>s. score_a = Some s) \<or> (\<exists>s. score_b = Some s))
         \<and> winner_messages (dev_a inp) (dev_b inp) score_a score_b \<noteq> []"
proof -
  obtain r0 where l: "load_rankings w = Inr r0"
    using assms by (cases "load_rankings w") (simp_all add: main_load_fails)
  have b: "button inp"
    using assms main_idle [OF l, of inp ext] by auto
  have s: "submitted (code_a inp) \<or> submitted (code_b inp)"
    using assms main_aborted [OF l b, of ext] by auto
  have "score_a = side_score ext (code_a inp) w" "score_b = side_score ext (code_b inp) w"
    using assms main_fought [OF l b s, of ext] by auto
  then show ?thesis
    using s by (auto simp add: side_score_def)
qed

theorem winner_step_has_a_score_witness:
  "(\<exists>r' w'. main grader (battle ''x = 1'' []) example_world
             = Inr (Fought (Some (Finite 5)) None, r', w'))
   \<and> winner_messages ''Developer A'' ''Developer B'' (Some (Finite 5)) None \<noteq> []"
proof -
  have l: "load_rankings example_world = Inr []" by code_simp
  have s: "submitted (code_a (battle ''x = 1'' [])) \<or> submitted (code_b (battle ''x = 1'' []))"
    by code_simp
  have e: "side_score grader (code_a (battle ''x = 1'' [])) example_world = Some (Finite 5)"
          "side_score grader (code_b (battle ''x = 1'' [])) example_world = None"
    by code_simp+
  note h = main_fought [OF l battle_simps(1) s, of grader, unfolded e]
  show ?thesis
    using winner_step_has_a_score [OF h] h by (simp add: battle_simps)
qed

lemma swap_simps [simp]:
  "dev_a (swap inp) = dev_b inp" "dev_b (swap inp) = dev_a inp"
  "code_a (swap inp) = code_b inp" "code_b (swap inp) = code_a inp"
  "button (swap inp) = button inp"
  by (simp_all add: swap_def)

lemma reported_swap: "reported ext (swap inp) w = reported ext inp w"
proof (cases "load_rankings w")
  case (Inl e)
  then show ?thesis by (simp add: reported_def main_load_fails)
next
  case (Inr r0)
  show ?thesis
  proof (cases "button inp")
    case False
    then show ?thesis using Inr by (simp add: reported_def verdict_def main_idle)
  next
    case True
    show ?thesis
    proof (cases "submitted (code_a inp) \<or> submitted (code_b inp)")
      case False
      then show ?thesis using Inr True by (simp add: reported_def verdict_def main_aborted)
    next
      case sub: True
      then have sub': "submitted (code_a (swap inp)) \<or> submitted (code_b (swap inp))"
        by auto
      have b': "button (swap inp)" using True by simp
      show ?thesis
        by (simp add: reported_def verdict_def main_fought [OF Inr True sub]
            main_fought [OF Inr b' sub'] verdict_battle_events winner_messages_swap)
    qed
  qed
qed

text \<open>
  C8. The winner determination does not depend on the order of the two developers: for
  all names and scores, defined or not, the branch chain gives the same message when A
  and B change places, so the same developer wins, a tie stays a tie and nothing stays
  nothing; and a whole run of \<open>main\<close> with A and B swapped gives the same verdict,
  the warning included.
\<close>

theorem winner_order_independent:
  "winner_messages b a score_b score_a = winner_messages a b score_a score_b
   \<and> reported ext (swap inp) w = reported ext inp w"
  by (simp add: winner_messages_swap reported_swap)

subsection \<open>The ranking after a battle\<close>








section \<open>The ranking store\<close>

subsection \<open>Reading a number back\<close>

lemma takeWhile_digit_stop:
  "number_stop rest \<Longrightarrow> takeWhile is_digit (s @ rest) = takeWhile is_digit s"
  by (induction s) (auto simp: number_stop_def is_digit_def split: list.splits)

lemma dropWhile_digit_stop:
  "number_stop rest \<Longrightarrow> dropWhile is_digit (s @ rest) = dropWhile is_digit s @ rest"
  by (induction s) (auto simp: number_stop_def is_digit_def split: list.splits)

lemma takeWhile_digit_stop0: "number_stop rest \<Longrightarrow> takeWhile is_digit rest = []"
  using takeWhile_digit_stop [of rest "[]"] by simp

lemma dropWhile_digit_stop0: "number_stop rest \<Longrightarrow> dropWhile is_digit rest = rest"
  using dropWhile_digit_stop [of rest "[]"] by simp

lemmas digit_stop = takeWhile_digit_stop dropWhile_digit_stop takeWhile_digit_stop0
  dropWhile_digit_stop0

lemma number_stop_not_digit: "number_stop (c # rest) \<Longrightarrow> \<not> is_digit c"
  by (auto simp: number_stop_def is_digit_def)

lemma match_unsigned_stop:
  "match_unsigned s = Some (m, r) \<Longrightarrow> number_stop rest \<Longrightarrow>
   match_unsigned (s @ rest) = Some (m, r @ rest)"
  by (cases s) (auto simp: takeWhile_digit_stop dropWhile_digit_stop split: if_splits)

lemma match_integer_stop:
  "match_integer s = Some (m, r) \<Longrightarrow> number_stop rest \<Longrightarrow>
   match_integer (s @ rest) = Some (m, r @ rest)"
  by (cases s)
     (auto simp: match_integer_def cons_fst_def digit_stop match_unsigned_stop
           split: if_splits option.splits)

lemma match_frac_stop:
  "match_frac s = (m, r) \<Longrightarrow> number_stop rest \<Longrightarrow> match_frac (s @ rest) = (m, r @ rest)"
  by (cases s; cases "tl s"; cases rest)
     (auto simp: match_frac_def takeWhile_digit_stop dropWhile_digit_stop number_stop_def
                 is_digit_def split: if_splits list.splits)

lemma match_exp_digits_stop:
  "match_exp_digits s = Some (m, r) \<Longrightarrow> number_stop rest \<Longrightarrow>
   match_exp_digits (s @ rest) = Some (m, r @ rest)"
  by (cases s; cases "tl s")
     (auto simp: match_exp_digits_def digit_stop
           split: if_splits list.splits)

lemma match_exp_digits_none_stop:
  "match_exp_digits s = None \<Longrightarrow> number_stop rest \<Longrightarrow> match_exp_digits (s @ rest) = None"
  by (cases s; cases "tl s"; cases rest)
     (auto simp: match_exp_digits_def number_stop_def is_digit_def
           split: if_splits list.splits)

lemma match_exp_stop:
  "match_exp s = (m, r) \<Longrightarrow> number_stop rest \<Longrightarrow> match_exp (s @ rest) = (m, r @ rest)"
proof (cases s)
  case Nil
  assume "match_exp s = (m, r)" "number_stop rest"
  with Nil show ?thesis
    by (cases rest) (auto simp: match_exp_def number_stop_def)
next
  case (Cons c cs)
  assume a: "match_exp s = (m, r)" "number_stop rest"
  show ?thesis
  proof (cases "match_exp_digits cs")
    case None
    with a Cons show ?thesis
      by (auto simp: match_exp_def match_exp_digits_none_stop split: if_splits)
  next
    case (Some p)
    with a Cons show ?thesis
      by (cases p) (auto simp: match_exp_def match_exp_digits_stop split: if_splits)
  qed
qed

lemma scan_number_text:
  assumes "json_number t" and "py_float t = Inr v" and "number_stop rest"
  shows "scan_number (t @ rest) = Some (v, rest)"
proof -
  from assms(1) obtain i r1 f r2 e where
    m: "match_integer t = Some (i, r1)" "match_frac r1 = (f, r2)" "match_exp r2 = (e, [])"
    and fe: "f \<noteq> [] \<or> e \<noteq> []"
    by (auto simp: json_number_def split: option.splits prod.splits)
  have t: "t = i @ f @ e"
    using match_integer_split [OF m(1)] match_frac_split [OF m(2)] match_exp_split [OF m(3)]
    by simp
  have "match_integer (t @ rest) = Some (i, r1 @ rest)"
    by (rule match_integer_stop [OF m(1) assms(3)])
  moreover have "match_frac (r1 @ rest) = (f, r2 @ rest)"
    by (rule match_frac_stop [OF m(2) assms(3)])
  moreover have "match_exp (r2 @ rest) = (e, rest)"
    using match_exp_stop [OF m(3) assms(3)] by simp
  ultimately show ?thesis
    using fe assms(2) t by (auto simp: scan_number_def)
qed

lemma scan_number_floatstr:
  assumes "reads_back frepr v" and "number_stop rest"
  shows "scan_number (floatstr frepr v @ rest) = Some (v, rest)"
proof (cases v)
  case (Finite x)
  with assms show ?thesis
    by (simp add: reads_back_def scan_number_text)
next
  case PosInf
  then show ?thesis
    by (simp add: scan_number_def match_integer_def py_startswith_def is_digit_def)
next
  case NegInf
  then show ?thesis
    by (simp add: scan_number_def match_integer_def py_startswith_def is_digit_def cons_fst_def)
next
  case NaN
  then show ?thesis
    by (simp add: scan_number_def match_integer_def py_startswith_def is_digit_def)
qed


subsection \<open>Reading a key back\<close>

lemma hex_val_hex_digit: "n < 16 \<Longrightarrow> hex_val (hex_digit n) = Some n"
proof -
  assume "n < 16"
  then have "n \<in> {0, 1, 2, 3, 4, 5, 6, 7, 8, 9, 10, 11, 12, 13, 14, 15}"
    by (simp only: insert_iff empty_iff) arith
  then show ?thesis
    by (auto simp add: hex_digit_def hex_val_def)
qed

lemma decode_control:
  assumes "n < 32"
  shows "decode_uXXXX (CHR ''0'') (CHR ''0'') (hex_digit (n div 16)) (hex_digit (n mod 16))
         = Some n"
proof -
  have a: "hex_val (hex_digit (n div 16)) = Some (n div 16)"
    using assms by (intro hex_val_hex_digit) simp
  have b: "hex_val (hex_digit (n mod 16)) = Some (n mod 16)"
    by (intro hex_val_hex_digit) simp
  have z: "hex_val (CHR ''0'') = Some 0"
    by (simp add: hex_val_def)
  show ?thesis
    by (simp add: decode_uXXXX_def a b z)
qed

lemma scanstring_escape_char:
  "scanstring (escape_char c @ rest) = cons_fst c (scanstring rest)"
proof -
  consider (special) "c \<in> {CHR 0x5C, CHR 0x22, CHR 0x08, CHR 0x0C, CHR 0x0A, CHR 0x0D, CHR 0x09}"
    | (control) "c \<notin> {CHR 0x5C, CHR 0x22, CHR 0x08, CHR 0x0C, CHR 0x0A, CHR 0x0D, CHR 0x09}"
                "(of_char c :: nat) < 32"
    | (plain) "c \<notin> {CHR 0x5C, CHR 0x22, CHR 0x08, CHR 0x0C, CHR 0x0A, CHR 0x0D, CHR 0x09}"
              "\<not> (of_char c :: nat) < 32"
    by blast
  then show ?thesis
  proof cases
    case special
    then show ?thesis
      by (auto simp add: escape_char_def backslash_def)
  next
    case control
    have lt: "(of_char c :: nat) < 256"
      using control(2) by simp
    show ?thesis
      using control
      by (simp add: escape_char_def decode_control lt)
  next
    case plain
    then show ?thesis
      by (simp add: escape_char_def)
  qed
qed

lemma scanstring_encoded:
  "scanstring (concat (map escape_char s) @ CHR 0x22 # rest) = Some (s, rest)"
proof (induction s)
  case Nil
  then show ?case by simp
next
  case (Cons c s)
  have "scanstring (concat (map escape_char (c # s)) @ CHR 0x22 # rest)
        = scanstring (escape_char c @ (concat (map escape_char s) @ CHR 0x22 # rest))"
    by simp
  also have "\<dots> = cons_fst c (scanstring (concat (map escape_char s) @ CHR 0x22 # rest))"
    by (rule scanstring_escape_char)
  also have "\<dots> = Some (c # s, rest)"
    by (simp add: Cons.IH cons_fst_def)
  finally show ?case .
qed


subsection \<open>Reading a dict back\<close>

lemma json_item_body: "json_item frepr kv = ''    '' @ [CHR 0x22] @ item_body frepr kv"
  by (simp add: json_item_def item_body_def encode_basestring_def)

lemma join_members:
  "py_join ('','' @ [CHR 0x0A]) (map (json_item frepr) (kv # kvs)) @ [CHR 0x0A] @ ''}''
   = ''    '' @ [CHR 0x22] @ members_text frepr (kv # kvs)"
proof (induction kvs arbitrary: kv)
  case Nil
  then show ?case by (simp add: json_item_body)
next
  case (Cons kv' kvs)
  show ?case
    using Cons.IH [of kv'] by (simp add: json_item_body)
qed

lemma json_dumps_members:
  "d \<noteq> [] \<Longrightarrow>
   json_dumps frepr d = ''{'' @ [CHR 0x0A] @ ''    '' @ [CHR 0x22] @ members_text frepr d"
  using join_members [of frepr "hd d" "tl d"]
  by (cases d) (simp_all add: json_dumps_def)

lemma json_number_starts:
  "json_number t \<Longrightarrow> \<exists>c cs. t = c # cs \<and> \<not> json_ws c"
  by (cases t)
     (auto simp add: json_number_def match_integer_def json_ws_def is_digit_def
           split: option.splits if_splits)

lemma skip_ws_floatstr:
  "reads_back frepr v \<Longrightarrow> skip_ws (floatstr frepr v @ tail) = floatstr frepr v @ tail"
proof (cases v)
  case (Finite x)
  assume "reads_back frepr v"
  with Finite obtain c cs where "frepr x = c # cs" "\<not> json_ws c"
    using json_number_starts [of "frepr x"] by (auto simp add: reads_back_def)
  with Finite show ?thesis by (simp add: skip_ws_def)
qed (simp_all add: skip_ws_def json_ws_def)

lemma scan_item:
  assumes "reads_back frepr (snd kv)" and "number_stop tail"
  shows "scan_members (item_body frepr kv @ tail) =
     (case skip_ws tail of
        [] \<Rightarrow> None
      | d # r3 \<Rightarrow>
          if d = CHR ''}'' then Some ([kv], r3)
          else if d = CHR '','' then
            (case skip_ws r3 of
               [] \<Rightarrow> None
             | q # r4 \<Rightarrow> if q = CHR 0x22 then cons_fst kv (scan_members r4) else None)
          else None)"
proof -
  obtain k v where kv: "kv = (k, v)"
    by (cases kv)
  have s: "scanstring (item_body frepr (k, v) @ tail)
           = Some (k, CHR '':'' # CHR '' '' # floatstr frepr v @ tail)"
    using scanstring_encoded [of k "'': '' @ floatstr frepr v @ tail"]
    by (simp add: item_body_def)
  have w1: "skip_ws (CHR '':'' # CHR '' '' # floatstr frepr v @ tail)
            = CHR '':'' # CHR '' '' # floatstr frepr v @ tail"
    by (simp add: skip_ws_def json_ws_def)
  have w2: "skip_ws (CHR '' '' # floatstr frepr v @ tail) = floatstr frepr v @ tail"
    using skip_ws_floatstr [of frepr v tail] assms(1)
    by (simp add: skip_ws_def json_ws_def kv)
  have n: "scan_number (floatstr frepr v @ tail) = Some (v, tail)"
    using scan_number_floatstr [of frepr v tail] assms by (simp add: kv)
  show ?thesis
    unfolding kv by (subst scan_members.simps) (simp add: s w1 w2 n)
qed

lemma scan_members_text:
  assumes "\<forall>kv \<in> set d. reads_back frepr (snd kv)" and "d \<noteq> []"
  shows "scan_members (members_text frepr d @ rest) = Some (d, rest)"
  using assms
proof (induction frepr d rule: members_text.induct)
  case (1 frepr)
  then show ?case by simp
next
  case (2 frepr kv)
  have "scan_members (item_body frepr kv @ (CHR 0x0A # CHR ''}'' # rest)) = Some ([kv], rest)"
    using 2 by (subst scan_item) (simp_all add: number_stop_def skip_ws_def json_ws_def)
  then show ?case by simp
next
  case (3 frepr kv kv' kvs)
  have ih: "scan_members (members_text frepr (kv' # kvs) @ rest) = Some (kv' # kvs, rest)"
    using 3 by simp
  have "scan_members (item_body frepr kv
          @ (CHR '','' # CHR 0x0A # ''    '' @ [CHR 0x22]
             @ members_text frepr (kv' # kvs) @ rest))
        = cons_fst kv (scan_members (members_text frepr (kv' # kvs) @ rest))"
    using 3(2) by (subst scan_item) (simp_all add: number_stop_def skip_ws_def json_ws_def)
  then show ?case by (simp add: ih cons_fst_def)
qed

lemma update_new_key:
  "k \<notin> fst ` set al \<Longrightarrow> AList.update k v al = al @ [(k, v)]"
  by (induction al) auto

lemma foldl_update_distinct:
  "distinct (map fst (acc @ ps)) \<Longrightarrow>
   foldl (\<lambda>d kv. AList.update (fst kv) (snd kv) d) acc ps = acc @ ps"
proof (induction ps arbitrary: acc)
  case Nil
  then show ?case by simp
next
  case (Cons p ps)
  have new: "fst p \<notin> fst ` set acc"
    using Cons.prems by auto
  have "distinct (map fst ((acc @ [p]) @ ps))"
    using Cons.prems by simp
  then have "foldl (\<lambda>d kv. AList.update (fst kv) (snd kv) d) (acc @ [p]) ps = (acc @ [p]) @ ps"
    by (rule Cons.IH)
  then show ?case
    using new by (simp add: update_new_key)
qed

lemma dict_of_pairs_distinct: "distinct (map fst d) \<Longrightarrow> dict_of_pairs d = d"
  using foldl_update_distinct [of "[]" d] by (simp add: dict_of_pairs_def)

lemma json_loads_dumps:
  assumes "distinct (map fst d)" and "\<forall>kv \<in> set d. reads_back frepr (snd kv)"
  shows "json_loads (json_dumps frepr d) = Inr d"
proof (cases "d = []")
  case True
  then show ?thesis
    by (simp add: json_dumps_def json_loads_def json_object_def skip_ws_def json_ws_def
        dict_of_pairs_def)
next
  case False
  have "scan_members (members_text frepr d @ []) = Some (d, [])"
    by (rule scan_members_text [OF assms(2) False])
  then show ?thesis
    using assms(1) False
    by (simp add: json_dumps_members json_loads_def json_object_def skip_ws_def json_ws_def
        dict_of_pairs_distinct)
qed

text \<open>
  C5. For every ranking mapping, the keys any strings and the values any floats,
  \<open>load_rankings\<close> after \<open>save_rankings\<close> gives the mapping that was saved, with
  its entries in the same order. A mapping is a dict, so its keys are distinct. What is
  taken from Python and not from the source is how \<open>float.__repr__\<close> writes a finite
  float: as a JSON number with a fraction or an exponent that \<open>float\<close> reads as the
  same float.
\<close>

theorem save_load_round_trip:
  assumes "distinct (map fst rankings)"
    and "\<forall>kv \<in> set rankings. reads_back (float_repr ext) (snd kv)"
  shows "load_rankings (save_rankings ext rankings w) = Inr rankings"
  using json_loads_dumps [OF assms]
  by (simp add: load_rankings_def save_rankings_def emit_def)

theorem save_load_round_trip_witness:
  "load_rankings
     (save_rankings grader
        [(''Developer A'', Finite (15 / 2)), (''D'' @ [CHR 0x22, CHR 0x5C, CHR 0x0A] @ ''B'', Finite 9),
         (''nobody'', NaN)]
        example_world)
   = Inr [(''Developer A'', Finite (15 / 2)), (''D'' @ [CHR 0x22, CHR 0x5C, CHR 0x0A] @ ''B'', Finite 9),
          (''nobody'', NaN)]"
proof -
  have d: "distinct (map fst [(''Developer A'', Finite (15 / 2)),
                              (''D'' @ [CHR 0x22, CHR 0x5C, CHR 0x0A] @ ''B'', Finite 9),
                              (''nobody'', NaN)])"
    by simp
  have r: "\<forall>kv \<in> set [(''Developer A'', Finite (15 / 2)),
                        (''D'' @ [CHR 0x22, CHR 0x5C, CHR 0x0A] @ ''B'', Finite 9),
                        (''nobody'', NaN)].
             reads_back (float_repr grader) (snd kv)"
    by code_simp
  show ?thesis
    using save_load_round_trip [OF d r] .
qed

end
